theory Spec2Isabelle
  imports Main "HOL-Library.Char_ord" "HOL-Library.List_Lexorder"
begin

section \<open>Backup catalogue and restore orchestrator (backend/modules/backups/services.py)\<close>

text \<open>
  Python strings are modelled as \<open>string\<close> (lists of characters), a \<open>dict\<close> with a
  fixed shape as a record, a \<open>dict\<close> used through its generic interface as a map, an
  exception as a value of \<open>pyexn\<close>, and everything the module reads from outside
  (environment variables, the object-store client, the HTTP client, the clock) as a
  field of the record \<open>world\<close>. A function that can raise returns a sum, \<open>Inl\<close> the
  exception; a \<open>try\<close> is the case distinction on such a result. The functions that
  list blobs, read the clock or call the git host take the effects so far and return
  them extended. What \<open>print\<close> writes in the \<open>except\<close> branches is not modelled.
\<close>

subsection \<open>String methods\<close>

text \<open>\<open>s.strip(c)\<close> for a one-character argument.\<close>

definition strip_char :: "char \<Rightarrow> string \<Rightarrow> string" where
  "strip_char c s = rev (dropWhile (\<lambda>x. x = c) (rev (dropWhile (\<lambda>x. x = c) s)))"

text \<open>\<open>s.split(c)\<close>: never empty, \<open>''.split('/') == ['']\<close>.\<close>

fun split_char :: "char \<Rightarrow> string \<Rightarrow> string list" where
  "split_char sep [] = [[]]"
| "split_char sep (c # cs) =
     (if c = sep then [] # split_char sep cs
      else (case split_char sep cs of [] \<Rightarrow> [[c]] | w # ws \<Rightarrow> (c # w) # ws))"

text \<open>\<open>s.split(c, n)\<close>: at most \<open>n\<close> cuts, the rest of the string is the last part.\<close>

fun split_max :: "char \<Rightarrow> nat \<Rightarrow> string \<Rightarrow> string list" where
  "split_max sep 0 s = [s]"
| "split_max sep (Suc n) [] = [[]]"
| "split_max sep (Suc n) (c # cs) =
     (if c = sep then [] # split_max sep n cs
      else (case split_max sep (Suc n) cs of [] \<Rightarrow> [[c]] | w # ws \<Rightarrow> (c # w) # ws))"

text \<open>\<open>sep.join(parts)\<close>.\<close>

fun join :: "string \<Rightarrow> string list \<Rightarrow> string" where
  "join sep [] = []"
| "join sep [p] = p"
| "join sep (p # q # ps) = p @ sep @ join sep (q # ps)"

text \<open>\<open>s.rsplit(c, 1)\<close> for a string that contains \<open>c\<close>: the text before the last
  \<open>c\<close> and the text after it.\<close>

definition rsplit1 :: "char \<Rightarrow> string \<Rightarrow> string \<times> string" where
  "rsplit1 c s =
     (rev (tl (dropWhile (\<lambda>x. x \<noteq> c) (rev s))), rev (takeWhile (\<lambda>x. x \<noteq> c) (rev s)))"

definition startswith :: "string \<Rightarrow> string \<Rightarrow> bool" where
  "startswith s p = (take (length p) s = p)"

definition endswith :: "string \<Rightarrow> string \<Rightarrow> bool" where
  "endswith s p = (take (length p) (rev s) = rev p)"

text \<open>\<open>s.replace(old, '')\<close>: every occurrence of \<open>old\<close> is removed, scanning from the
  left; an empty \<open>old\<close> leaves the string as it is.\<close>

function str_remove :: "string \<Rightarrow> string \<Rightarrow> string" where
  "str_remove old [] = []"
| "str_remove old (c # cs) =
     (if old \<noteq> [] \<and> take (length old) (c # cs) = old
      then str_remove old (drop (length old) (c # cs))
      else c # str_remove old cs)"
  by pat_completeness auto
termination
  by (relation "measure (\<lambda>(old, s). length s)") (auto simp: Suc_le_eq)

text \<open>\<open>os.getenv(name, default)\<close> on the process environment.\<close>

definition getenv :: "(string \<rightharpoonup> string) \<Rightarrow> string \<Rightarrow> string \<Rightarrow> string" where
  "getenv env k d = (case env k of None \<Rightarrow> d | Some v \<Rightarrow> v)"

subsection \<open>Path parser\<close>

text \<open>The dict returned by \<open>_parse_blob_path\<close>; \<open>date_str\<close> holds Python's \<open>None\<close> as
  \<open>None\<close>.\<close>

record parsed =
  p_org :: string
  p_project :: string
  p_repo :: string
  p_date_str :: "string option"
  p_blob_name :: string

text \<open>The date taken from the last path segment.\<close>

definition extract_date :: "string \<Rightarrow> string option" where
  "extract_date filename =
     (if endswith filename ''.zip''
      then (let date_part = str_remove ''.zip'' filename
            in if length date_part \<ge> 10 then Some (take 10 date_part) else None)
      else None)"

text \<open>The segments of the key, and the segments left once the configured prefix has
  been skipped.\<close>

definition key_parts :: "string \<Rightarrow> string list" where
  "key_parts blob_name = split_char CHR ''/'' (strip_char CHR ''/'' blob_name)"

definition skip_prefix :: "(string \<rightharpoonup> string) \<Rightarrow> string list \<Rightarrow> string list" where
  "skip_prefix env parts =
     (let prefix = strip_char CHR ''/'' (getenv env ''AZURE_STORAGE_PREFIX'' '''')
      in if prefix \<noteq> [] \<and> hd parts = prefix then tl parts else parts)"

definition parse_blob_path :: "(string \<rightharpoonup> string) \<Rightarrow> string \<Rightarrow> parsed option" where
  "parse_blob_path env blob_name =
     (let parts = key_parts blob_name in
      if length parts < 4 then None
      else
        let parts = skip_prefix env parts in
        if length parts < 3 then None
        else
          let org = parts ! 0;
              project = parts ! 1;
              repo_with_date = join ''/'' (drop 2 parts);
              (repo, filename) =
                 (if CHR ''/'' \<in> set repo_with_date then rsplit1 CHR ''/'' repo_with_date
                  else (repo_with_date, ''''))
          in Some \<lparr> p_org = org, p_project = project, p_repo = repo,
                    p_date_str = extract_date filename, p_blob_name = blob_name \<rparr>)"

subsection \<open>Exceptions, dates and times\<close>

text \<open>A raised exception: its class name and \<open>str(e)\<close>.\<close>

datatype pyexn = PyExn string string

fun exn_str :: "pyexn \<Rightarrow> string" where
  "exn_str (PyExn cls msg) = msg"

text \<open>
  A \<open>datetime\<close> value. \<open>dt_utcoffset\<close> is \<open>None\<close> for a naive value and the offset
  from UTC in minutes for an aware one. Python keeps every field in range
  (\<open>valid_datetime\<close>); the fixed-width formats below print such fields as Python does.
\<close>

record datetime =
  dt_year :: nat
  dt_month :: nat
  dt_day :: nat
  dt_hour :: nat
  dt_minute :: nat
  dt_second :: nat
  dt_microsecond :: nat
  dt_utcoffset :: "int option"

definition is_leap :: "nat \<Rightarrow> bool" where
  "is_leap y = (y mod 4 = 0 \<and> (y mod 100 \<noteq> 0 \<or> y mod 400 = 0))"

definition days_in_month :: "nat \<Rightarrow> nat \<Rightarrow> nat" where
  "days_in_month y m =
     (if m = 2 then (if is_leap y then 29 else 28)
      else if m = 4 \<or> m = 6 \<or> m = 9 \<or> m = 11 then 30 else 31)"

definition valid_datetime :: "datetime \<Rightarrow> bool" where
  "valid_datetime d =
     (1 \<le> dt_year d \<and> dt_year d \<le> 9999 \<and> 1 \<le> dt_month d \<and> dt_month d \<le> 12 \<and>
      1 \<le> dt_day d \<and> dt_day d \<le> days_in_month (dt_year d) (dt_month d) \<and>
      dt_hour d < 24 \<and> dt_minute d < 60 \<and> dt_second d < 60 \<and> dt_microsecond d < 1000000)"

definition digit_char :: "nat \<Rightarrow> char" where
  "digit_char n = char_of (48 + n mod 10)"

definition dec2 :: "nat \<Rightarrow> string" where
  "dec2 n = [digit_char (n div 10), digit_char n]"

definition dec4 :: "nat \<Rightarrow> string" where
  "dec4 n = [digit_char (n div 1000), digit_char (n div 100), digit_char (n div 10), digit_char n]"

definition dec6 :: "nat \<Rightarrow> string" where
  "dec6 n = [digit_char (n div 100000), digit_char (n div 10000), digit_char (n div 1000),
             digit_char (n div 100), digit_char (n div 10), digit_char n]"

text \<open>\<open>d.strftime('%Y-%m-%d')\<close> (for a year of four digits) and
  \<open>d.strftime('%H%M')\<close>.\<close>

definition strftime_Ymd :: "datetime \<Rightarrow> string" where
  "strftime_Ymd d = dec4 (dt_year d) @ ''-'' @ dec2 (dt_month d) @ ''-'' @ dec2 (dt_day d)"

definition strftime_HM :: "datetime \<Rightarrow> string" where
  "strftime_HM d = dec2 (dt_hour d) @ dec2 (dt_minute d)"

definition format_offset :: "int option \<Rightarrow> string" where
  "format_offset off =
     (case off of None \<Rightarrow> []
      | Some m \<Rightarrow> (if m < 0 then ''-'' else ''+'') @ dec2 (nat \<bar>m\<bar> div 60) @ '':'' @
                  dec2 (nat \<bar>m\<bar> mod 60))"

text \<open>\<open>d.isoformat()\<close>: the date, then the time of day with the microseconds when
  they are not zero and the offset of an aware value.\<close>

definition isoformat_time :: "datetime \<Rightarrow> string" where
  "isoformat_time d =
     ''T'' @ dec2 (dt_hour d) @ '':'' @ dec2 (dt_minute d) @ '':'' @ dec2 (dt_second d) @
     (if dt_microsecond d \<noteq> 0 then ''.'' @ dec6 (dt_microsecond d) else []) @
     format_offset (dt_utcoffset d)"

definition isoformat :: "datetime \<Rightarrow> string" where
  "isoformat d = strftime_Ymd d @ isoformat_time d"

text \<open>One day forward and one day back; leaving the years 1 to 9999 raises
  \<open>OverflowError\<close>.\<close>

definition overflow_error :: pyexn where
  "overflow_error = PyExn ''OverflowError'' ''date value out of range''"

definition next_day :: "datetime \<Rightarrow> pyexn + datetime" where
  "next_day d =
     (if dt_day d < days_in_month (dt_year d) (dt_month d) then Inr (d\<lparr>dt_day := dt_day d + 1\<rparr>)
      else if dt_month d < 12 then Inr (d\<lparr>dt_month := dt_month d + 1, dt_day := 1\<rparr>)
      else if dt_year d < 9999 then Inr (d\<lparr>dt_year := dt_year d + 1, dt_month := 1, dt_day := 1\<rparr>)
      else Inl overflow_error)"

definition prev_day :: "datetime \<Rightarrow> pyexn + datetime" where
  "prev_day d =
     (if 1 < dt_day d then Inr (d\<lparr>dt_day := dt_day d - 1\<rparr>)
      else if 1 < dt_month d
        then Inr (d\<lparr>dt_month := dt_month d - 1,
                     dt_day := days_in_month (dt_year d) (dt_month d - 1)\<rparr>)
      else if 1 < dt_year d then Inr (d\<lparr>dt_year := dt_year d - 1, dt_month := 12, dt_day := 31\<rparr>)
      else Inl overflow_error)"

text \<open>\<open>d + timedelta(days=n)\<close> and \<open>d - timedelta(days=n)\<close>.\<close>

fun plus_days :: "nat \<Rightarrow> datetime \<Rightarrow> pyexn + datetime" where
  "plus_days 0 d = Inr d"
| "plus_days (Suc n) d = (case next_day d of Inl e \<Rightarrow> Inl e | Inr d' \<Rightarrow> plus_days n d')"

fun minus_days :: "nat \<Rightarrow> datetime \<Rightarrow> pyexn + datetime" where
  "minus_days 0 d = Inr d"
| "minus_days (Suc n) d = (case prev_day d of Inl e \<Rightarrow> Inl e | Inr d' \<Rightarrow> minus_days n d')"

text \<open>\<open>d + timedelta(hours=1)\<close>.\<close>

definition plus_hour :: "datetime \<Rightarrow> pyexn + datetime" where
  "plus_hour d =
     (if dt_hour d < 23 then Inr (d\<lparr>dt_hour := dt_hour d + 1\<rparr>)
      else (case next_day d of Inl e \<Rightarrow> Inl e | Inr d' \<Rightarrow> Inr (d'\<lparr>dt_hour := 0\<rparr>)))"

text \<open>
  \<open>datetime.fromisoformat(s)\<close>. The module applies it to ten-character strings only
  (\<open>date_str\<close> and \<open>last_backup[:10]\<close>), and the model reads the calendar form
  \<open>YYYY-MM-DD\<close>; anything else raises \<open>ValueError\<close>.
\<close>

definition is_digit :: "char \<Rightarrow> bool" where
  "is_digit c = (48 \<le> (of_char c :: nat) \<and> (of_char c :: nat) \<le> 57)"

definition digit_val :: "char \<Rightarrow> nat" where
  "digit_val c = of_char c - 48"

definition value_error :: "string \<Rightarrow> pyexn" where
  "value_error s = PyExn ''ValueError'' (''Invalid isoformat string: '' @ s)"

definition fromisoformat :: "string \<Rightarrow> pyexn + datetime" where
  "fromisoformat s =
     (if length s = 10 \<and> list_all is_digit (take 4 s) \<and> s ! 4 = CHR ''-'' \<and>
         list_all is_digit (take 2 (drop 5 s)) \<and> s ! 7 = CHR ''-'' \<and>
         list_all is_digit (drop 8 s)
      then
        (let y = 1000 * digit_val (s ! 0) + 100 * digit_val (s ! 1) + 10 * digit_val (s ! 2) +
                 digit_val (s ! 3);
             m = 10 * digit_val (s ! 5) + digit_val (s ! 6);
             d = 10 * digit_val (s ! 8) + digit_val (s ! 9)
         in if 1 \<le> y \<and> 1 \<le> m \<and> m \<le> 12 \<and> 1 \<le> d \<and> d \<le> days_in_month y m
            then Inr \<lparr> dt_year = y, dt_month = m, dt_day = d, dt_hour = 0, dt_minute = 0,
                       dt_second = 0, dt_microsecond = 0, dt_utcoffset = None \<rparr>
            else Inl (value_error s))
      else Inl (value_error s))"

text \<open>\<open>a > b\<close> on two naive values.\<close>

definition dt_key :: "datetime \<Rightarrow> nat list" where
  "dt_key d = [dt_year d, dt_month d, dt_day d, dt_hour d, dt_minute d, dt_second d,
               dt_microsecond d]"

definition dt_greater :: "datetime \<Rightarrow> datetime \<Rightarrow> bool" where
  "dt_greater a b = (dt_key b < dt_key a)"

subsection \<open>Encodings from the standard library\<close>

text \<open>\<open>urllib.parse.quote(s, safe='')\<close>: letters, digits and \<open>_.-~\<close> stay, every other
  byte becomes \<open>%XX\<close>.\<close>

definition hex_digit :: "nat \<Rightarrow> char" where
  "hex_digit n = ''0123456789ABCDEF'' ! (n mod 16)"

definition unreserved :: "char \<Rightarrow> bool" where
  "unreserved c =
     (let n = (of_char c :: nat)
      in (65 \<le> n \<and> n \<le> 90) \<or> (97 \<le> n \<and> n \<le> 122) \<or> (48 \<le> n \<and> n \<le> 57) \<or>
         c = CHR ''_'' \<or> c = CHR ''.'' \<or> c = CHR ''-'' \<or> c = CHR ''~'')"

definition quote_char :: "char \<Rightarrow> string" where
  "quote_char c =
     (if unreserved c then [c]
      else [CHR ''%'', hex_digit (of_char c div 16), hex_digit (of_char c)])"

definition quote :: "string \<Rightarrow> string" where
  "quote s = concat (map quote_char s)"

text \<open>\<open>base64.b64encode(bs).decode()\<close>.\<close>

definition b64_char :: "nat \<Rightarrow> char" where
  "b64_char n =
     ''ABCDEFGHIJKLMNOPQRSTUVWXYZabcdefghijklmnopqrstuvwxyz0123456789+/'' ! (n mod 64)"

fun b64_groups :: "nat list \<Rightarrow> string" where
  "b64_groups (a # b # c # rest) =
     (let n = a * 65536 + b * 256 + c
      in [b64_char (n div 262144), b64_char (n div 4096), b64_char (n div 64), b64_char n] @
         b64_groups rest)"
| "b64_groups [a, b] =
     (let n = a * 65536 + b * 256
      in [b64_char (n div 262144), b64_char (n div 4096), b64_char (n div 64), CHR ''=''])"
| "b64_groups [a] =
     (let n = a * 65536
      in [b64_char (n div 262144), b64_char (n div 4096), CHR ''='', CHR ''=''])"
| "b64_groups [] = []"

definition b64encode :: "string \<Rightarrow> string" where
  "b64encode s = b64_groups (map of_char s)"

subsection \<open>The outside world\<close>

text \<open>A decoded JSON value (numbers: integers), with Python's truth value and the
  \<open>.get\<close> of a decoded body.\<close>

datatype json = JNull | JBool bool | JInt int | JStr string | JArr "json list"
  | JObj "(string \<times> json) list"

fun json_truthy :: "json \<Rightarrow> bool" where
  "json_truthy JNull = False"
| "json_truthy (JBool b) = b"
| "json_truthy (JInt n) = (n \<noteq> 0)"
| "json_truthy (JStr s) = (s \<noteq> [])"
| "json_truthy (JArr xs) = (xs \<noteq> [])"
| "json_truthy (JObj kvs) = (kvs \<noteq> [])"

fun json_type_name :: "json \<Rightarrow> string" where
  "json_type_name JNull = ''NoneType''"
| "json_type_name (JBool b) = ''bool''"
| "json_type_name (JInt n) = ''int''"
| "json_type_name (JStr s) = ''str''"
| "json_type_name (JArr xs) = ''list''"
| "json_type_name (JObj kvs) = ''dict''"

text \<open>\<open>data.get(key)\<close>: \<open>None\<close> for a missing key, \<open>AttributeError\<close> when the decoded
  body is not a dict.\<close>

definition json_get :: "json \<Rightarrow> string \<Rightarrow> pyexn + json" where
  "json_get data k =
     (case data of
        JObj kvs \<Rightarrow> Inr (case map_of kvs k of None \<Rightarrow> JNull | Some v \<Rightarrow> v)
      | _ \<Rightarrow> Inl (PyExn ''AttributeError''
                 ([CHR 0x27] @ json_type_name data @ [CHR 0x27] @
                  '' object has no attribute '' @ [CHR 0x27] @ ''get'' @ [CHR 0x27])))"

text \<open>The response of \<open>requests.post\<close>: status code, body text, and what \<open>.json()\<close>
  gives.\<close>

record response =
  status_code :: int
  resp_text :: string
  resp_json :: "pyexn + json"

text \<open>A listed blob (\<open>BlobProperties\<close>).\<close>

record blob =
  blob_name :: string
  blob_last_modified :: "datetime option"
  blob_size :: "int option"

text \<open>The two ways \<open>_get_storage_client\<close> builds a \<open>BlobServiceClient\<close>.\<close>

datatype client = FromConnectionString string | FromAccountUrl string

text \<open>
  What the module reads and calls. \<open>MOCK_MODE\<close> and \<open>AZURE_STORAGE_AVAILABLE\<close> are the
  module-level flags set at import. \<open>list_blobs c container prefix\<close> gives the blobs the
  iterator yields and the exception it then raises, if any. Building a client and
  reading \<open>client.account_url\<close> do not raise; listing, \<open>get_blob_client\<close>, signing, the
  HTTP call and the decoding of its body may. \<open>utcnow_at w k\<close> is the time at the
  k-th call of \<open>datetime.utcnow()\<close>, which returns it as a naive value.
\<close>

record world =
  MOCK_MODE :: bool
  AZURE_STORAGE_AVAILABLE :: bool
  environ :: "string \<rightharpoonup> string"
  list_blobs :: "client \<Rightarrow> string \<Rightarrow> string \<Rightarrow> blob list \<times> pyexn option"
  account_url :: "client \<Rightarrow> string"
  blob_client_url :: "client \<Rightarrow> string \<Rightarrow> string \<Rightarrow> pyexn + string"
  generate_blob_sas :: "string \<Rightarrow> string \<Rightarrow> string \<Rightarrow> string \<Rightarrow> datetime \<Rightarrow> pyexn + string"
  requests_post :: "string \<Rightarrow> (string \<times> string) list \<Rightarrow> json \<Rightarrow> nat \<Rightarrow> pyexn + response"
  utcnow_at :: "nat \<Rightarrow> datetime"

text \<open>The effects of a call: the network requests made so far, in order, and the
  number of clock readings.\<close>

datatype event = ListBlobs string string | HttpPost string

record effects =
  net_calls :: "event list"
  clock_reads :: nat

definition utcnow :: "world \<Rightarrow> effects \<Rightarrow> datetime \<times> effects" where
  "utcnow w s =
     ((utcnow_at w (clock_reads s))\<lparr>dt_utcoffset := None\<rparr>,
      s\<lparr>clock_reads := Suc (clock_reads s)\<rparr>)"

definition net_call :: "event \<Rightarrow> effects \<Rightarrow> effects" where
  "net_call ev s = s\<lparr>net_calls := net_calls s @ [ev]\<rparr>"

text \<open>The truth value of an optional string (\<open>None\<close> and \<open>''\<close> are false).\<close>

definition str_truthy :: "string option \<Rightarrow> bool" where
  "str_truthy v = (case v of None \<Rightarrow> False | Some s \<Rightarrow> s \<noteq> [])"

text \<open>The string held by an optional string that is true.\<close>

definition str_of :: "string option \<Rightarrow> string" where
  "str_of v = (case v of None \<Rightarrow> [] | Some s \<Rightarrow> s)"

definition get_storage_client :: "world \<Rightarrow> client option" where
  "get_storage_client w =
     (if MOCK_MODE w \<or> \<not> AZURE_STORAGE_AVAILABLE w then None
      else
        let storage_account = environ w ''AZURE_STORAGE_ACCOUNT_NAME'';
            connection_string = environ w ''AZURE_STORAGE_CONNECTION_STRING''
        in if str_truthy connection_string
           then Some (FromConnectionString (str_of connection_string))
           else if str_truthy storage_account
           then Some (FromAccountUrl
                        (''https://'' @ str_of storage_account @ ''.blob.core.windows.net''))
           else None)"

definition container_name :: "world \<Rightarrow> string" where
  "container_name w = getenv (environ w) ''AZURE_STORAGE_CONTAINER'' ''git-backups''"

definition storage_prefix :: "world \<Rightarrow> string" where
  "storage_prefix w = strip_char CHR ''/'' (getenv (environ w) ''AZURE_STORAGE_PREFIX'' '''')"

subsection \<open>Catalogue builder\<close>

record summary =
  s_id :: string
  s_org :: string
  s_project :: string
  s_repo :: string
  s_backup_count :: int
  s_last_backup :: "string option"

definition get_mock_repositories :: "summary list" where
  "get_mock_repositories =
     [\<lparr> s_id = ''org1-project1-repo1'', s_org = ''myorg'', s_project = ''ProjectAlpha'',
         s_repo = ''infra-terraform'', s_backup_count = 45,
         s_last_backup = Some ''2025-01-15T14:30:00Z'' \<rparr>,
      \<lparr> s_id = ''org1-project1-repo2'', s_org = ''myorg'', s_project = ''ProjectAlpha'',
         s_repo = ''core-app'', s_backup_count = 42,
         s_last_backup = Some ''2025-01-15T12:00:00Z'' \<rparr>,
      \<lparr> s_id = ''org1-project2-repo1'', s_org = ''myorg'', s_project = ''ProjectBeta'',
         s_repo = ''api-service'', s_backup_count = 38,
         s_last_backup = Some ''2025-01-14T18:00:00Z'' \<rparr>]"

text \<open>The inner \<open>try\<close> of the loop: a date that does not parse leaves the entry as it
  is.\<close>

definition bump_last_backup :: "string \<Rightarrow> summary \<Rightarrow> summary" where
  "bump_last_backup date_str entry =
     (case fromisoformat date_str of
        Inl e \<Rightarrow> entry
      | Inr backup_date \<Rightarrow>
          (case s_last_backup entry of
             None \<Rightarrow> entry\<lparr>s_last_backup := Some (isoformat backup_date @ ''Z'')\<rparr>
           | Some last_backup \<Rightarrow>
               (case fromisoformat (take 10 last_backup) of
                  Inl e \<Rightarrow> entry
                | Inr last_date \<Rightarrow>
                    if dt_greater backup_date last_date
                    then entry\<lparr>s_last_backup := Some (isoformat backup_date @ ''Z'')\<rparr>
                    else entry)))"

text \<open>\<open>repos_map\<close> keeps its keys in insertion order; \<open>dict_update k f m\<close> is
  \<open>m[k] = f(m[k])\<close> for a key that is present.\<close>

definition dict_update :: "string \<Rightarrow> ('v \<Rightarrow> 'v) \<Rightarrow> (string \<times> 'v) list \<Rightarrow> (string \<times> 'v) list" where
  "dict_update k f m = map (\<lambda>(k', v). if k' = k then (k', f v) else (k', v)) m"

text \<open>One round of the loop over the listed blobs.\<close>

definition catalog_step :: "(string \<rightharpoonup> string) \<Rightarrow> (string \<times> summary) list \<Rightarrow> blob \<Rightarrow> (string \<times> summary) list" where
  "catalog_step env repos_map b =
     (if \<not> endswith (blob_name b) ''.zip'' then repos_map
      else
        (case parse_blob_path env (blob_name b) of
           None \<Rightarrow> repos_map
         | Some parsed \<Rightarrow>
             let repo_id = p_org parsed @ ''-'' @ p_project parsed @ ''-'' @ p_repo parsed;
                 repos_map =
                   (if repo_id \<notin> fst ` set repos_map
                    then repos_map @
                         [(repo_id, \<lparr> s_id = repo_id, s_org = p_org parsed,
                                      s_project = p_project parsed, s_repo = p_repo parsed,
                                      s_backup_count = 0, s_last_backup = None \<rparr>)]
                    else repos_map);
                 repos_map =
                   dict_update repo_id (\<lambda>e. e\<lparr>s_backup_count := s_backup_count e + 1\<rparr>) repos_map
             in if str_truthy (p_date_str parsed)
                then dict_update repo_id (bump_last_backup (str_of (p_date_str parsed))) repos_map
                else repos_map))"

definition list_repositories :: "world \<Rightarrow> effects \<Rightarrow> summary list \<times> effects" where
  "list_repositories w s =
     (if MOCK_MODE w then (get_mock_repositories, s)
      else
        (case get_storage_client w of
           None \<Rightarrow> ([], s)
         | Some client \<Rightarrow>
             let prefix = storage_prefix w;
                 prefix = (if prefix \<noteq> [] then prefix @ ''/'' else prefix);
                 s1 = net_call (ListBlobs (container_name w) prefix) s
             in (case list_blobs w client (container_name w) prefix of
                   (blobs, Some e) \<Rightarrow> ([], s1)
                 | (blobs, None) \<Rightarrow> (map snd (foldl (catalog_step (environ w)) [] blobs), s1))))"

subsection \<open>Version lister\<close>

text \<open>A backup version. The field \<open>size_mb\<close> of the source is a float rounded from
  \<open>size_bytes\<close> and is not carried.\<close>

record version =
  v_id :: string
  v_timestamp :: string
  v_size_bytes :: int
  v_retention_expires :: "string option"
  v_blob_path :: string

text \<open>The dict that \<open>_parse_blob_path\<close> returns, seen through \<open>dict.get\<close> and an
  f-string.\<close>

datatype pyval = PyNone | PyStr string

definition parsed_dict :: "parsed \<Rightarrow> (string \<rightharpoonup> pyval)" where
  "parsed_dict p =
     [''org'' \<mapsto> PyStr (p_org p), ''project'' \<mapsto> PyStr (p_project p),
      ''repo'' \<mapsto> PyStr (p_repo p),
      ''date_str'' \<mapsto> (case p_date_str p of None \<Rightarrow> PyNone | Some d \<Rightarrow> PyStr d),
      ''blob_name'' \<mapsto> PyStr (p_blob_name p)]"

definition dict_get :: "('k \<rightharpoonup> 'v) \<Rightarrow> 'k \<Rightarrow> 'v \<Rightarrow> 'v" where
  "dict_get m k d = (case m k of None \<Rightarrow> d | Some v \<Rightarrow> v)"

fun py_format :: "pyval \<Rightarrow> string" where
  "py_format PyNone = ''None''"
| "py_format (PyStr s) = s"

text \<open>The record appended for one blob; the clock is read when the blob carries no
  modification time, and the retention date can overflow.\<close>

definition make_version :: "world \<Rightarrow> string \<Rightarrow> parsed \<Rightarrow> blob \<Rightarrow> effects \<Rightarrow> (pyexn + version) \<times> effects" where
  "make_version w repo_id parsed b s =
     (let vid = repo_id @ ''-'' @
                py_format (dict_get (parsed_dict parsed) ''date_str'' (PyStr (blob_name b)));
          (timestamp, s1) =
             (case blob_last_modified b of
                Some lm \<Rightarrow> (isoformat lm, s)
              | None \<Rightarrow> (let (now, s') = utcnow w s in (isoformat now @ ''Z'', s')));
          size_bytes = (case blob_size b of None \<Rightarrow> 0 | Some n \<Rightarrow> n)
      in case blob_last_modified b of
           None \<Rightarrow>
             (Inr \<lparr> v_id = vid, v_timestamp = timestamp, v_size_bytes = size_bytes,
                    v_retention_expires = None, v_blob_path = blob_name b \<rparr>, s1)
         | Some lm \<Rightarrow>
             (case plus_days 90 lm of
                Inl e \<Rightarrow> (Inl e, s1)
              | Inr expires \<Rightarrow>
                  (Inr \<lparr> v_id = vid, v_timestamp = timestamp, v_size_bytes = size_bytes,
                         v_retention_expires = Some (isoformat expires),
                         v_blob_path = blob_name b \<rparr>, s1)))"

text \<open>The loop over the listed blobs, stopping at the first exception.\<close>

fun scan_versions :: "world \<Rightarrow> string \<Rightarrow> blob list \<Rightarrow> version list \<Rightarrow> effects \<Rightarrow> (pyexn + version list) \<times> effects" where
  "scan_versions w repo_id [] versions s = (Inr versions, s)"
| "scan_versions w repo_id (b # bs) versions s =
     (if \<not> endswith (blob_name b) ''.zip'' then scan_versions w repo_id bs versions s
      else
        (case parse_blob_path (environ w) (blob_name b) of
           None \<Rightarrow> scan_versions w repo_id bs versions s
         | Some parsed \<Rightarrow>
             (case make_version w repo_id parsed b s of
                (Inl e, s') \<Rightarrow> (Inl e, s')
              | (Inr v, s') \<Rightarrow> scan_versions w repo_id bs (versions @ [v]) s')))"

text \<open>The \<open>for\<close> statement of \<open>list_backup_versions\<close> as a whole: the records in
  listing order, or the exception raised by the listing or by a round.\<close>

definition collect_versions :: "world \<Rightarrow> client \<Rightarrow> string \<Rightarrow> string \<Rightarrow> effects \<Rightarrow> (pyexn + version list) \<times> effects" where
  "collect_versions w c blob_prefix repo_id s =
     (case list_blobs w c (container_name w) blob_prefix of
        (blobs, err) \<Rightarrow>
          (case scan_versions w repo_id blobs [] (net_call (ListBlobs (container_name w) blob_prefix) s) of
             (Inl e, s') \<Rightarrow> (Inl e, s')
           | (Inr versions, s') \<Rightarrow>
               (case err of Some e \<Rightarrow> (Inl e, s') | None \<Rightarrow> (Inr versions, s'))))"

text \<open>\<open>xs.sort(key=f, reverse=True)\<close>: CPython reverses the list, sorts it with its
  stable ascending sort, and reverses the result.\<close>

definition sort_reverse :: "('a \<Rightarrow> 'k::linorder) \<Rightarrow> 'a list \<Rightarrow> 'a list" where
  "sort_reverse f xs = rev (sort_key f (rev xs))"

text \<open>The mock data: ten versions, one per day back from now.\<close>

definition mock_version :: "string \<Rightarrow> datetime \<Rightarrow> nat \<Rightarrow> pyexn + version" where
  "mock_version repo_id base_date i =
     (case minus_days i base_date of
        Inl e \<Rightarrow> Inl e
      | Inr backup_date \<Rightarrow>
          (case plus_days 90 backup_date of
             Inl e \<Rightarrow> Inl e
           | Inr expires \<Rightarrow>
               Inr \<lparr> v_id = repo_id @ ''-'' @ strftime_Ymd backup_date,
                      v_timestamp = isoformat backup_date @ ''Z'',
                      v_size_bytes = 15728640 + int i * 1024,
                      v_retention_expires = Some (isoformat expires @ ''Z''),
                      v_blob_path = ''myorg/project/repo/'' @ strftime_Ymd backup_date @ ''-'' @
                                    strftime_HM backup_date @ ''.zip'' \<rparr>))"

fun mock_versions_from :: "string \<Rightarrow> datetime \<Rightarrow> nat list \<Rightarrow> pyexn + version list" where
  "mock_versions_from repo_id base_date [] = Inr []"
| "mock_versions_from repo_id base_date (i # rest) =
     (case mock_version repo_id base_date i of
        Inl e \<Rightarrow> Inl e
      | Inr v \<Rightarrow>
          (case mock_versions_from repo_id base_date rest of
             Inl e \<Rightarrow> Inl e
           | Inr vs \<Rightarrow> Inr (v # vs)))"

definition get_mock_backup_versions :: "world \<Rightarrow> string \<Rightarrow> effects \<Rightarrow> (pyexn + version list) \<times> effects" where
  "get_mock_backup_versions w repo_id s =
     (let (base_date, s') = utcnow w s
      in (mock_versions_from repo_id base_date [0..<10], s'))"

definition blob_prefix_of :: "world \<Rightarrow> string list \<Rightarrow> string" where
  "blob_prefix_of w parts =
     (let org = parts ! 0; project = parts ! 1; repo = parts ! 2; prefix = storage_prefix w
      in if prefix \<noteq> [] then prefix @ ''/'' @ org @ ''/'' @ project @ ''/'' @ repo @ ''/''
         else org @ ''/'' @ project @ ''/'' @ repo @ ''/'')"

definition list_backup_versions :: "world \<Rightarrow> string \<Rightarrow> effects \<Rightarrow> (pyexn + version list) \<times> effects" where
  "list_backup_versions w repo_id s =
     (if MOCK_MODE w then get_mock_backup_versions w repo_id s
      else
        (case get_storage_client w of
           None \<Rightarrow> (Inr [], s)
         | Some client \<Rightarrow>
             let parts = split_max CHR ''-'' 2 repo_id
             in if length parts < 3 then (Inr [], s)
                else
                  (case collect_versions w client (blob_prefix_of w parts) repo_id s of
                     (Inl e, s') \<Rightarrow> (Inr [], s')
                   | (Inr versions, s') \<Rightarrow> (Inr (sort_reverse v_timestamp versions), s'))))"

subsection \<open>Link issuer\<close>

text \<open>The unsigned blob URL that both the managed-identity path and the \<open>except\<close>
  branch return.\<close>

definition plain_blob_url :: "world \<Rightarrow> client \<Rightarrow> string \<Rightarrow> string" where
  "plain_blob_url w c blob_path =
     account_url w c @ ''/'' @ container_name w @ ''/'' @ quote blob_path"

text \<open>\<open>dict(part.split('=', 1) for part in cs.split(';') if '=' in part)\<close>: a later
  setting of a key replaces an earlier one.\<close>

definition connection_settings :: "string \<Rightarrow> (string \<rightharpoonup> string)" where
  "connection_settings cs =
     map_of (rev (map (\<lambda>part. (split_max CHR ''='' 1 part ! 0, split_max CHR ''='' 1 part ! 1))
                      (filter (\<lambda>part. CHR ''='' \<in> set part) (split_char CHR '';'' cs))))"

text \<open>The body of the \<open>try\<close> of \<open>get_download_link\<close>.\<close>

definition sign_blob_url :: "world \<Rightarrow> client \<Rightarrow> string \<Rightarrow> effects \<Rightarrow> (pyexn + string) \<times> effects" where
  "sign_blob_url w c blob_path s =
     (case blob_client_url w c (container_name w) blob_path of
        Inl e \<Rightarrow> (Inl e, s)
      | Inr url \<Rightarrow>
          let connection_string = environ w ''AZURE_STORAGE_CONNECTION_STRING'';
              parts = connection_settings (str_of connection_string);
              account_name = dict_get parts ''AccountName'' '''';
              account_key = dict_get parts ''AccountKey'' ''''
          in if str_truthy connection_string \<and> account_key \<noteq> []
             then
               (case utcnow w s of
                  (now, s1) \<Rightarrow>
                    (case plus_hour now of
                       Inl e \<Rightarrow> (Inl e, s1)
                     | Inr expiry \<Rightarrow>
                         (case generate_blob_sas w account_name (container_name w) blob_path
                                 account_key expiry of
                            Inl e \<Rightarrow> (Inl e, s1)
                          | Inr sas_token \<Rightarrow> (Inr (url @ ''?'' @ sas_token), s1))))
             else (Inr (plain_blob_url w c blob_path), s))"

definition get_download_link :: "world \<Rightarrow> string \<Rightarrow> string \<Rightarrow> effects \<Rightarrow> (pyexn + string option) \<times> effects" where
  "get_download_link w repo_id backup_id s =
     (if MOCK_MODE w
      then (Inr (Some (''https://mock-storage.example.com/download/'' @ backup_id @ ''?mock=true'')), s)
      else
        (case get_storage_client w of
           None \<Rightarrow> (Inr None, s)
         | Some client \<Rightarrow>
             (case list_backup_versions w repo_id s of
                (Inl e, s1) \<Rightarrow> (Inl e, s1)
              | (Inr versions, s1) \<Rightarrow>
                  (case find (\<lambda>v. v_id v = backup_id) versions of
                     None \<Rightarrow> (Inr None, s1)
                   | Some backup \<Rightarrow>
                       if v_blob_path backup = [] then (Inr None, s1)
                       else
                         (case sign_blob_url w client (v_blob_path backup) s1 of
                            (Inl e, s2) \<Rightarrow>
                              (Inr (Some (plain_blob_url w client (v_blob_path backup))), s2)
                          | (Inr url, s2) \<Rightarrow> (Inr (Some url), s2))))))"

subsection \<open>Restore orchestrator\<close>

text \<open>The status dict: \<open>Success message repo_url repo_id download_url\<close> (the last two
  keys are absent from the mock answer) or \<open>Error message\<close>.\<close>

datatype outcome = Success string json "json option" "string option" | Error string

definition repo_web_url :: "string \<Rightarrow> string \<Rightarrow> string \<Rightarrow> string" where
  "repo_web_url target_org target_project target_repo_name =
     ''https://dev.azure.com/'' @ target_org @ ''/'' @ target_project @ ''/_git/'' @ target_repo_name"

text \<open>The request of step 1: URL, headers and JSON payload.\<close>

definition create_repo_url :: "string \<Rightarrow> string \<Rightarrow> string" where
  "create_repo_url target_org target_project =
     ''https://dev.azure.com/'' @ target_org @ ''/'' @ target_project @
     ''/_apis/git/repositories?api-version=7.1''"

definition create_headers :: "string \<Rightarrow> (string \<times> string) list" where
  "create_headers pat =
     [(''Authorization'', ''Basic '' @ b64encode ('':'' @ pat)),
      (''Content-Type'', ''application/json'')]"

definition create_payload :: "string \<Rightarrow> string \<Rightarrow> json" where
  "create_payload target_repo_name target_project =
     JObj [(''name'', JStr target_repo_name), (''project'', JObj [(''id'', JStr target_project)])]"

text \<open>The body of the \<open>try\<close> of \<open>restore_to_azure_devops\<close>; a failing
  \<open>import requests\<close> counts as a failing request.\<close>

definition create_repository :: "world \<Rightarrow> string \<Rightarrow> string \<Rightarrow> string \<Rightarrow> string \<Rightarrow> string \<Rightarrow> effects \<Rightarrow> (pyexn + outcome) \<times> effects" where
  "create_repository w target_org target_project target_repo_name pat download_url s =
     (let s1 = net_call (HttpPost (create_repo_url target_org target_project)) s
      in case requests_post w (create_repo_url target_org target_project) (create_headers pat)
                (create_payload target_repo_name target_project) 30 of
           Inl e \<Rightarrow> (Inl e, s1)
         | Inr create_response \<Rightarrow>
             if status_code create_response \<noteq> 200 \<and> status_code create_response \<noteq> 201
             then
               (if status_code create_response = 409
                then (Inr (Error (''Repository '' @ target_repo_name @ '' already exists in '' @
                                  target_project)), s1)
                else (Inr (Error (''Failed to create repository: '' @
                                  resp_text create_response)), s1))
             else
               (case resp_json create_response of
                  Inl e \<Rightarrow> (Inl e, s1)
                | Inr repo_data \<Rightarrow>
                    (case json_get repo_data ''id'' of
                       Inl e \<Rightarrow> (Inl e, s1)
                     | Inr repo_id_ado \<Rightarrow>
                         (case json_get repo_data ''webUrl'' of
                            Inl e \<Rightarrow> (Inl e, s1)
                          | Inr web_url \<Rightarrow>
                              (Inr (Success
                                      (''Repository '' @ target_repo_name @
                                       '' created. Import backup manually or implement import API.'')
                                      (if json_truthy web_url then web_url
                                       else JStr (repo_web_url target_org target_project
                                                    target_repo_name))
                                      (Some repo_id_ado) (Some download_url)), s1)))))"

definition restore_to_azure_devops :: "world \<Rightarrow> string \<Rightarrow> string \<Rightarrow> string \<Rightarrow> string \<Rightarrow> string \<Rightarrow> string \<Rightarrow> effects \<Rightarrow> (pyexn + outcome) \<times> effects" where
  "restore_to_azure_devops w repo_id backup_id target_org target_project target_repo_name
       visibility s =
     (if MOCK_MODE w
      then (Inr (Success (''Mock restore: '' @ backup_id @ '' -> '' @ target_org @ ''/'' @
                          target_project @ ''/'' @ target_repo_name)
                         (JStr (repo_web_url target_org target_project target_repo_name))
                         None None), s)
      else
        (case get_download_link w repo_id backup_id s of
           (Inl e, s1) \<Rightarrow> (Inl e, s1)
         | (Inr download_url, s1) \<Rightarrow>
             if \<not> str_truthy download_url
             then (Inr (Error ''Failed to generate download link for backup''), s1)
             else
               let pat = environ w ''AZURE_DEVOPS_PAT''
               in if \<not> str_truthy pat
                  then (Inr (Error ''Azure DevOps PAT not configured. Set AZURE_DEVOPS_PAT environment variable.''), s1)
                  else
                    (case create_repository w target_org target_project target_repo_name
                            (str_of pat) (str_of download_url) s1 of
                       (Inl e, s2) \<Rightarrow> (Inr (Error (''Restore failed: '' @ exn_str e)), s2)
                     | (Inr result, s2) \<Rightarrow> (Inr result, s2))))"

subsection \<open>What the claims speak of\<close>



subsection \<open>Concrete inputs\<close>

text \<open>A store that lists the given blobs under a prefix (raising \<open>err\<close> at the end
  of the listing, if given), whose signing fails, and a git host that answers every
  request with \<open>answer\<close>.\<close>

definition demo_time :: datetime where
  "demo_time = \<lparr> dt_year = 2025, dt_month = 3, dt_day = 2, dt_hour = 9, dt_minute = 0,
                  dt_second = 0, dt_microsecond = 0, dt_utcoffset = Some 0 \<rparr>"

definition demo_world :: "blob list \<Rightarrow> pyexn option \<Rightarrow> (string \<rightharpoonup> string) \<Rightarrow> (pyexn + response) \<Rightarrow> world" where
  "demo_world bs err env answer =
     \<lparr> MOCK_MODE = False, AZURE_STORAGE_AVAILABLE = True, environ = env,
       list_blobs = (\<lambda>c cn p. (filter (\<lambda>b. startswith (blob_name b) p) bs, err)),
       account_url = (\<lambda>c. ''https://acct.blob.core.windows.net''),
       blob_client_url = (\<lambda>c cn b. Inr (''https://acct.blob.core.windows.net/'' @ cn @ ''/'' @ b)),
       generate_blob_sas = (\<lambda>a cn b k e. Inl (PyExn ''ValueError'' ''Incorrect padding'')),
       requests_post = (\<lambda>u h j t. answer),
       utcnow_at = (\<lambda>k. demo_time) \<rparr>"

definition demo_blob :: "string \<Rightarrow> blob" where
  "demo_blob k = \<lparr> blob_name = k, blob_last_modified = Some demo_time, blob_size = Some 1048576 \<rparr>"

definition no_effects :: effects where
  "no_effects = \<lparr> net_calls = [], clock_reads = 0 \<rparr>"

text \<open>Environments: a storage account only; a connection string with an account key
  and an access token for the git host.\<close>

definition env_account :: "string \<rightharpoonup> string" where
  "env_account = [''AZURE_STORAGE_ACCOUNT_NAME'' \<mapsto> ''acct'']"

definition env_full :: "string \<rightharpoonup> string" where
  "env_full = [''AZURE_STORAGE_CONNECTION_STRING'' \<mapsto> ''AccountName=acct;AccountKey=a2V5'',
               ''AZURE_DEVOPS_PAT'' \<mapsto> ''token'']"

definition answer_409 :: "pyexn + response" where
  "answer_409 = Inr \<lparr> status_code = 409, resp_text = ''{}'', resp_json = Inr (JObj []) \<rparr>"


text \<open>The records of a call of \<open>list_backup_versions\<close> in the order in which they are
  built (the listing order), before any sorting; empty where the call returns early or
  an exception ends the loop.\<close>

definition versions_as_listed :: "world \<Rightarrow> string \<Rightarrow> effects \<Rightarrow> version list" where
  "versions_as_listed w repo_id s =
     (if MOCK_MODE w
      then (case fst (get_mock_backup_versions w repo_id s) of Inl e \<Rightarrow> [] | Inr vs \<Rightarrow> vs)
      else
        (case get_storage_client w of
           None \<Rightarrow> []
         | Some client \<Rightarrow>
             if length (split_max CHR ''-'' 2 repo_id) < 3 then []
             else
               (case fst (collect_versions w client
                            (blob_prefix_of w (split_max CHR ''-'' 2 repo_id)) repo_id s) of
                  Inl e \<Rightarrow> []
                | Inr versions \<Rightarrow> versions)))"

text \<open>Newest first: no element is followed by one with a greater timestamp.\<close>

definition newest_first :: "version list \<Rightarrow> bool" where
  "newest_first vs = sorted_wrt (\<lambda>a b. v_timestamp b \<le> v_timestamp a) vs"

text \<open>The two keys of the catalogue scenario and the summary entry of their repository.\<close>

definition key_0301 :: string where
  "key_0301 = ''acme/ProjectX/svc-a/2025-03-01-0900.zip''"

definition key_0302 :: string where
  "key_0302 = ''acme/ProjectX/svc-a/2025-03-02-0900.zip''"

definition svc_a_entry :: "int \<Rightarrow> string option \<Rightarrow> summary" where
  "svc_a_entry n last_backup =
     \<lparr> s_id = ''acme-ProjectX-svc-a'', s_org = ''acme'', s_project = ''ProjectX'',
       s_repo = ''svc-a'', s_backup_count = n, s_last_backup = last_backup \<rparr>"

section \<open>Properties\<close>

subsection \<open>Effects and results that are passed through\<close>











subsection \<open>Path parser\<close>

lemma length_skip_prefix: "length parts - 1 \<le> length (skip_prefix env parts)"
  by (simp add: skip_prefix_def Let_def)

lemma parse_blob_path_None_iff:
  "parse_blob_path env key = None \<longleftrightarrow> length (key_parts key) < 4"
proof (cases "length (key_parts key) < 4")
  case True
  then show ?thesis
    by (simp add: parse_blob_path_def)
next
  case False
  then have "\<not> length (skip_prefix env (key_parts key)) < 3"
    using length_skip_prefix [of "key_parts key" env] by arith
  with False show ?thesis
    by (simp add: parse_blob_path_def Let_def split: prod.splits)
qed

text \<open>
  C3, as the code has it: \<open>_parse_blob_path\<close> returns \<open>None\<close> exactly when the key,
  stripped of leading and trailing slashes, has fewer than four segments, counted before
  the configured prefix is skipped; the later test for fewer than three segments after
  the skip never decides. In particular a key with fewer than three segments besides the
  prefix gives \<open>None\<close>.
\<close>

theorem parse_none_iff_fewer_than_four_segments:
  "(parse_blob_path env key = None \<longleftrightarrow> length (key_parts key) < 4) \<and>
   (length (skip_prefix env (key_parts key)) < 3 \<longrightarrow> parse_blob_path env key = None)"
proof -
  have "length (key_parts key) < 4" if "length (skip_prefix env (key_parts key)) < 3"
    using that length_skip_prefix [of "key_parts key" env] by arith
  then show ?thesis
    by (simp add: parse_blob_path_None_iff)
qed

text \<open>The key \<open>a/b\<close> has two segments: fewer than three, and it is not parsed.\<close>

theorem parse_none_iff_fewer_than_four_segments_witness:
  "length (skip_prefix Map.empty (key_parts ''a/b'')) < 3 \<and>
   parse_blob_path Map.empty ''a/b'' = None"
  using parse_none_iff_fewer_than_four_segments [of Map.empty "''a/b''"]
  by (simp add: key_parts_def strip_char_def skip_prefix_def getenv_def)

text \<open>
  C3 as the specification words it fails: the number of segments left after the prefix
  is skipped does not decide the result. With no prefix configured the key \<open>a/b/c\<close>
  keeps three segments and is refused; with the prefix \<open>p\<close> the key \<open>p/a/b/c\<close> keeps
  three segments as well and is parsed.
\<close>

theorem parse_none_by_remaining_segments_counterexample:
  "parse_blob_path Map.empty ''a/b/c'' = None \<and>
   length (skip_prefix Map.empty (key_parts ''a/b/c'')) = 3 \<and>
   parse_blob_path [''AZURE_STORAGE_PREFIX'' \<mapsto> ''p''] ''p/a/b/c'' \<noteq> None \<and>
   length (skip_prefix [''AZURE_STORAGE_PREFIX'' \<mapsto> ''p''] (key_parts ''p/a/b/c'')) = 3"
  by (simp add: parse_blob_path_def key_parts_def strip_char_def skip_prefix_def getenv_def
      Let_def)

text \<open>Splitting, stripping and cutting strings built from segments.\<close>

lemma split_char_no_sep: "c \<notin> set a \<Longrightarrow> split_char c a = [a]"
  by (induction a) auto

lemma split_char_sep: "c \<notin> set a \<Longrightarrow> split_char c (a @ c # rest) = a # split_char c rest"
  by (induction a) auto

lemma strip_char_id:
  assumes "s \<noteq> []" and "hd s \<noteq> c" and "last s \<noteq> c"
  shows "strip_char c s = s"
proof -
  have "dropWhile (\<lambda>x. x = c) s = s"
    using assms(1,2) by (cases s) auto
  moreover have "dropWhile (\<lambda>x. x = c) (rev s) = rev s"
    using assms(1,3) by (cases "rev s") (auto simp: last_rev [symmetric] simp del: last_rev)
  ultimately show ?thesis
    by (simp add: strip_char_def)
qed

lemma takeWhile_dropWhile_sep:
  "c \<notin> set r \<Longrightarrow>
   takeWhile (\<lambda>x. x \<noteq> c) (r @ c # t) = r \<and> dropWhile (\<lambda>x. x \<noteq> c) (r @ c # t) = c # t"
  by (induction r) auto

lemma rsplit1_last: "c \<notin> set b \<Longrightarrow> rsplit1 c (a @ c # b) = (a, b)"
  using takeWhile_dropWhile_sep [of c "rev b" "rev a"] by (simp add: rsplit1_def)

lemma str_remove_suffix_only:
  "CHR ''.'' \<notin> set s \<Longrightarrow> str_remove ''.zip'' (s @ ''.zip'') = s"
  by (induction s) auto

lemma endswith_append: "endswith (s @ p) p"
  by (simp add: endswith_def)

lemma extract_date_stamp:
  assumes "CHR ''.'' \<notin> set stamp" and "10 \<le> length stamp"
  shows "extract_date (stamp @ ''.zip'') = Some (take 10 stamp)"
  using assms
  by (simp add: extract_date_def endswith_append str_remove_suffix_only del: str_remove.simps)


lemma hd_not_sep: "xs \<noteq> [] \<Longrightarrow> c \<notin> set xs \<Longrightarrow> hd xs \<noteq> c"
  by (cases xs) auto

text \<open>
  Well-formed keys. For a key of the form
  \<open>{prefix}/org/project/repo/stamp.zip\<close>, where the prefix is the configured one (or
  none is configured), the segments hold no slash, \<open>org\<close> is not empty and the stamp
  holds no dot and has at least ten characters (as \<open>YYYY-MM-DD-HHMM\<close> does), the
  parser recovers \<open>org\<close>, \<open>project\<close> and \<open>repo\<close>, and the date is the first ten
  characters of the stamp.
\<close>

lemma parse_well_formed_key:
  assumes seg: "CHR ''/'' \<notin> set org" "CHR ''/'' \<notin> set project" "CHR ''/'' \<notin> set repo"
      "CHR ''/'' \<notin> set stamp"
    and org: "org \<noteq> []"
    and stamp: "CHR ''.'' \<notin> set stamp" "10 \<le> length stamp"
    and pfx: "strip_char CHR ''/'' (getenv env ''AZURE_STORAGE_PREFIX'' []) = pfx"
      "CHR ''/'' \<notin> set pfx"
    and key: "key = (if pfx = [] then [] else pfx @ ''/'') @
                    org @ ''/'' @ project @ ''/'' @ repo @ ''/'' @ stamp @ ''.zip''"
  shows "parse_blob_path env key =
         Some \<lparr> p_org = org, p_project = project, p_repo = repo,
                p_date_str = Some (take 10 stamp), p_blob_name = key \<rparr>"
proof -
  define fname where "fname = stamp @ ''.zip''"
  define rest where "rest = org @ CHR ''/'' # project @ CHR ''/'' # repo @ CHR ''/'' # fname"
  have fname: "CHR ''/'' \<notin> set fname"
    using seg(4) by (simp add: fname_def)
  have parts_rest: "split_char CHR ''/'' rest = [org, project, repo, fname]"
    using seg(1-3) fname by (simp add: rest_def split_char_sep split_char_no_sep)
  have key': "key = (if pfx = [] then [] else pfx @ ''/'') @ rest"
    by (simp add: key rest_def fname_def)
  have "key \<noteq> []" and "hd key \<noteq> CHR ''/''"
    using org seg(1) pfx(2) by (auto simp: key' rest_def hd_append hd_not_sep)
  moreover have "last key = CHR ''p''"
    by (simp add: key)
  ultimately have strip: "strip_char CHR ''/'' key = key"
    by (intro strip_char_id) auto
  have parts: "key_parts key = (if pfx = [] then [] else [pfx]) @ [org, project, repo, fname]"
  proof -
    have "key_parts key = split_char CHR ''/'' key"
      by (simp only: key_parts_def strip)
    also have "\<dots> = (if pfx = [] then [] else [pfx]) @ [org, project, repo, fname]"
      using pfx(2) by (simp add: key' split_char_sep parts_rest)
    finally show ?thesis .
  qed
  have skip: "skip_prefix env (key_parts key) = [org, project, repo, fname]"
    by (simp add: skip_prefix_def pfx(1) parts)
  have rs: "rsplit1 CHR ''/'' (repo @ CHR ''/'' # fname) = (repo, fname)"
    using fname by (rule rsplit1_last)
  have date: "extract_date fname = Some (take 10 stamp)"
    unfolding fname_def using stamp by (rule extract_date_stamp)
  have "\<not> length (key_parts key) < 4"
    by (simp add: parts)
  then show ?thesis
    by (simp add: parse_blob_path_def skip rs date)
qed

text \<open>
  C4 at the key \<open>acme/ProjectX/svc-a/backup.zip.zip\<close>: the file name ends with
  \<open>.zip\<close> and what is left once that suffix is cut off, \<open>backup.zip\<close>, has ten
  characters, yet no date is extracted: \<open>replace\<close> removes both occurrences of
  \<open>.zip\<close> and six characters remain. (For the well-formed keys of the claim the
  parser does recover the fields and the date: \<open>parse_well_formed_key\<close>.)
\<close>

theorem parse_date_str_inner_suffix:
  "map_option p_date_str (parse_blob_path Map.empty ''acme/ProjectX/svc-a/backup.zip.zip'') =
     Some None \<and>
   str_remove ''.zip'' ''backup.zip.zip'' = ''backup''"
  by code_simp

subsection \<open>Restore without an access token\<close>




subsection \<open>Link issuer\<close>








subsection \<open>Restore orchestrator\<close>

text \<open>
  C5: in a call of \<open>restore_to_azure_devops\<close> in which the create-repository request
  is made (not in mock mode, the download link resolved, the token configured) and
  answered with HTTP 409, the result is the error
  \<open>Repository <name> already exists in <project>\<close>: not the generic
  \<open>Failed to create repository\<close> error and not a success.
\<close>

theorem restore_conflict:
  assumes "\<not> MOCK_MODE w"
    and "fst (get_download_link w repo_id backup_id s) = Inr (Some url)" and "url \<noteq> []"
    and "environ w ''AZURE_DEVOPS_PAT'' = Some pat" and "pat \<noteq> []"
    and "requests_post w (create_repo_url target_org target_project) (create_headers pat)
           (create_payload target_repo_name target_project) 30 = Inr resp"
    and "status_code resp = 409"
  shows "fst (restore_to_azure_devops w repo_id backup_id target_org target_project
                target_repo_name visibility s) =
         Inr (Error (''Repository '' @ target_repo_name @ '' already exists in '' @ target_project)) \<and>
         (\<forall>t. fst (restore_to_azure_devops w repo_id backup_id target_org target_project
                target_repo_name visibility s) \<noteq>
              Inr (Error (''Failed to create repository: '' @ t))) \<and>
         (\<forall>m u i d. fst (restore_to_azure_devops w repo_id backup_id target_org target_project
                target_repo_name visibility s) \<noteq> Inr (Success m u i d))"
proof -
  obtain s1 where g: "get_download_link w repo_id backup_id s = (Inr (Some url), s1)"
    using assms(2) by (cases "get_download_link w repo_id backup_id s") auto
  have "fst (create_repository w target_org target_project target_repo_name pat url s1) =
        Inr (Error (''Repository '' @ target_repo_name @ '' already exists in '' @ target_project))"
    using assms(6,7) by (simp add: create_repository_def)
  then obtain s2 where
    "create_repository w target_org target_project target_repo_name pat url s1 =
       (Inr (Error (''Repository '' @ target_repo_name @ '' already exists in '' @ target_project)), s2)"
    by (cases "create_repository w target_org target_project target_repo_name pat url s1") auto
  with assms(1,3,4,5) g show ?thesis
    by (simp add: restore_to_azure_devops_def str_truthy_def str_of_def)
qed

text \<open>Restoring \<open>svc-a\<close> into \<open>ProjectY\<close> of a git host that answers 409.\<close>

theorem restore_conflict_witness:
  "status_code \<lparr> status_code = 409, resp_text = ''{}'', resp_json = Inr (JObj []) \<rparr> = 409 \<and>
   fst (restore_to_azure_devops (demo_world [demo_blob key_0301] None env_full answer_409)
          ''acme-ProjectX-svc-a'' ''acme-ProjectX-svc-a-2025-03-01'' ''acme'' ''ProjectY''
          ''svc-a'' ''private'' no_effects) =
     Inr (Error ''Repository svc-a already exists in ProjectY'')"
proof -
  let ?w = "demo_world [demo_blob key_0301] None env_full answer_409"
  let ?resp = "\<lparr> status_code = 409, resp_text = ''{}'', resp_json = Inr (JObj []) \<rparr>"
  have h1: "\<not> MOCK_MODE ?w"
    by (simp add: demo_world_def)
  have h2: "fst (get_download_link ?w ''acme-ProjectX-svc-a'' ''acme-ProjectX-svc-a-2025-03-01''
                   no_effects) =
            Inr (Some ''https://acct.blob.core.windows.net/git-backups/acme%2FProjectX%2Fsvc-a%2F2025-03-01-0900.zip'')"
    by code_simp
  have h3: "''https://acct.blob.core.windows.net/git-backups/acme%2FProjectX%2Fsvc-a%2F2025-03-01-0900.zip'' \<noteq> []"
    by simp
  have h4: "environ ?w ''AZURE_DEVOPS_PAT'' = Some ''token''"
    by code_simp
  have h5: "''token'' \<noteq> []"
    by simp
  have h6: "requests_post ?w (create_repo_url ''acme'' ''ProjectY'') (create_headers ''token'')
              (create_payload ''svc-a'' ''ProjectY'') 30 = Inr ?resp"
    by (simp add: demo_world_def answer_409_def)
  have h7: "status_code ?resp = 409"
    by simp
  from restore_conflict [OF h1 h2 h3 h4 h5 h6 h7, of "''private''"] show ?thesis
    by simp
qed




text \<open>
  C10: the outcome of \<open>restore_to_azure_devops\<close> does not depend on its \<open>visibility\<close>
  argument: two calls that differ in it alone return the same result and leave the same
  effects.
\<close>

theorem restore_ignores_visibility:
  "restore_to_azure_devops w repo_id backup_id target_org target_project target_repo_name
     visibility s =
   restore_to_azure_devops w repo_id backup_id target_org target_project target_repo_name
     visibility' s"
  by (simp add: restore_to_azure_devops_def)

theorem restore_ignores_visibility_witness:
  "restore_to_azure_devops (demo_world [demo_blob key_0301] None env_full answer_409)
     ''acme-ProjectX-svc-a'' ''acme-ProjectX-svc-a-2025-03-01'' ''acme'' ''ProjectY'' ''svc-a''
     ''private'' no_effects =
   restore_to_azure_devops (demo_world [demo_blob key_0301] None env_full answer_409)
     ''acme-ProjectX-svc-a'' ''acme-ProjectX-svc-a-2025-03-01'' ''acme'' ''ProjectY'' ''svc-a''
     ''public'' no_effects"
  by (rule restore_ignores_visibility)

subsection \<open>Version lister\<close>

lemma make_version_id:
  "make_version w repo_id parsed b s = (Inr v, s') \<Longrightarrow>
   v_id v = repo_id @ ''-'' @ (case p_date_str parsed of None \<Rightarrow> ''None'' | Some d \<Rightarrow> d)"
  by (auto simp: make_version_def Let_def parsed_dict_def dict_get_def
      split: option.splits sum.splits prod.splits)

text \<open>
  C1 at the repository \<open>acme-ProjectX-svc-a\<close> with the one listed key
  \<open>acme/ProjectX/svc-a/short.zip\<close>: the key is parsed and no date is extracted from
  it, and the id of the version is the repository id followed by \<open>-None\<close>, not by a
  hyphen and the key. The dict returned by the parser always holds the key
  \<open>date_str\<close>, so the default of \<open>parsed.get('date_str', blob.name)\<close> is never taken
  and the f-string prints \<open>None\<close>.
\<close>

theorem version_id_without_date:
  "map_option p_date_str (parse_blob_path env_account ''acme/ProjectX/svc-a/short.zip'') =
     Some None \<and>
   fst (list_backup_versions
          (demo_world [demo_blob ''acme/ProjectX/svc-a/short.zip''] None env_account answer_409)
          ''acme-ProjectX-svc-a'' no_effects) =
     Inr [\<lparr> v_id = ''acme-ProjectX-svc-a-None'', v_timestamp = ''2025-03-02T09:00:00+00:00'',
            v_size_bytes = 1048576, v_retention_expires = Some ''2025-05-31T09:00:00+00:00'',
            v_blob_path = ''acme/ProjectX/svc-a/short.zip'' \<rparr>]"
  by code_simp

text \<open>Dates printed with fixed widths are ordered as the dates are.\<close>

lemma digit_char_less: "digit_char a < digit_char b \<longleftrightarrow> a mod 10 < b mod 10"
  by (simp add: digit_char_def less_char_def)

lemma less_append_same_length:
  fixes a b :: "'a::linorder list"
  shows "length a = length b \<Longrightarrow> a < b \<Longrightarrow> a @ x < b @ y"
  by (induction a b rule: list_induct2) auto

lemma less_append_cancel:
  fixes xs :: "'a::linorder list"
  shows "us @ xs < us @ ys \<longleftrightarrow> xs < ys"
  by (induction us) auto

lemma div_mod_less:
  fixes a b k :: nat
  assumes "a < b"
  shows "a div k < b div k \<or> (a div k = b div k \<and> a mod k < b mod k)"
proof (cases "a div k < b div k")
  case True
  then show ?thesis by simp
next
  case False
  moreover have "a div k \<le> b div k"
    using assms by (simp add: div_le_mono)
  ultimately have eq: "a div k = b div k" by simp
  from assms have "a div k * k + a mod k < b div k * k + b mod k"
    by (simp only: div_mult_mod_eq)
  then have "b div k * k + a mod k < b div k * k + b mod k"
    by (simp only: eq)
  then have "a mod k < b mod k"
    by (rule add_less_imp_less_left)
  with eq show ?thesis by simp
qed

lemma length_dec2: "length (dec2 n) = 2"
  by (simp add: dec2_def)

lemma dec2_less:
  assumes "a < b" and "b < 100"
  shows "dec2 a < dec2 b"
proof -
  have "a div 10 < 10" "b div 10 < 10"
    using assms by simp_all
  then have "a div 10 mod 10 = a div 10" "b div 10 mod 10 = b div 10"
    by simp_all
  moreover have "a div 10 < b div 10 \<or> (a div 10 = b div 10 \<and> a mod 10 < b mod 10)"
    using assms(1) by (rule div_mod_less)
  ultimately show ?thesis
    by (auto simp: dec2_def digit_char_less)
qed

lemma mod_100_div_10: "(n::nat) mod 100 div 10 = n div 10 mod 10"
proof -
  have "n mod (10 * 10) = 10 * (n div 10 mod 10) + n mod 10"
    by (rule mod_mult2_eq)
  then have "n mod 100 = 10 * (n div 10 mod 10) + n mod 10" by simp
  then show ?thesis by simp
qed

lemma dec4_split: "dec4 n = dec2 (n div 100) @ dec2 (n mod 100)"
proof -
  have "n div 100 div 10 = n div 1000"
    by (simp add: div_mult2_eq)
  then show ?thesis
    by (simp add: dec4_def dec2_def digit_char_def mod_100_div_10 mod_mod_cancel)
qed

lemma length_dec4: "length (dec4 n) = 4"
  by (simp add: dec4_def)

lemma dec4_less:
  assumes "a < b" and "b < 10000"
  shows "dec4 a < dec4 b"
proof -
  consider "a div 100 < b div 100" | "a div 100 = b div 100" "a mod 100 < b mod 100"
    using div_mod_less [OF assms(1), of 100] by blast
  then show ?thesis
  proof cases
    case 1
    moreover have "b div 100 < 100" using assms(2) by simp
    ultimately have "dec2 (a div 100) < dec2 (b div 100)"
      by (rule dec2_less)
    then have "dec2 (a div 100) @ dec2 (a mod 100) < dec2 (b div 100) @ dec2 (b mod 100)"
      by (rule less_append_same_length [rotated]) (simp add: length_dec2)
    then show ?thesis
      by (simp only: dec4_split)
  next
    case 2
    have "dec2 (a mod 100) < dec2 (b mod 100)"
      using 2(2) by (rule dec2_less) simp
    with 2(1) show ?thesis
      by (simp only: dec4_split less_append_cancel)
  qed
qed

lemma length_strftime_Ymd: "length (strftime_Ymd d) = 10"
  by (simp add: strftime_Ymd_def dec4_def dec2_def)

lemma prev_day_props:
  assumes "valid_datetime d" and "prev_day d = Inr d'"
  shows "valid_datetime d' \<and> strftime_Ymd d' < strftime_Ymd d \<and>
         isoformat_time d' = isoformat_time d"
proof -
  have dim: "1 \<le> days_in_month y m" "days_in_month y m \<le> 31" for y m
    by (simp_all add: days_in_month_def)
  consider (day) "1 < dt_day d" "d' = d\<lparr>dt_day := dt_day d - 1\<rparr>"
    | (month) "dt_day d = 1" "1 < dt_month d"
        "d' = d\<lparr>dt_month := dt_month d - 1, dt_day := days_in_month (dt_year d) (dt_month d - 1)\<rparr>"
    | (year) "dt_day d = 1" "dt_month d = 1" "1 < dt_year d"
        "d' = d\<lparr>dt_year := dt_year d - 1, dt_month := 12, dt_day := 31\<rparr>"
    using assms by (auto simp: prev_day_def valid_datetime_def split: if_splits)
  then show ?thesis
  proof cases
    case day
    have "dec2 (dt_day d - 1) < dec2 (dt_day d)"
      using day(1) assms(1) dim(2) [of "dt_year d" "dt_month d"]
      by (intro dec2_less) (auto simp: valid_datetime_def)
    with day assms(1) show ?thesis
      by (auto simp: valid_datetime_def strftime_Ymd_def isoformat_time_def less_append_cancel)
  next
    case month
    have "dec2 (dt_month d - 1) < dec2 (dt_month d)"
      using month(2) assms(1) by (intro dec2_less) (auto simp: valid_datetime_def)
    then have "dec2 (dt_month d - 1) @ ''-'' @ dec2 (days_in_month (dt_year d) (dt_month d - 1))
               < dec2 (dt_month d) @ ''-'' @ dec2 (dt_day d)"
      by (rule less_append_same_length [rotated]) (simp add: length_dec2)
    with month assms(1) dim show ?thesis
      by (auto simp: valid_datetime_def strftime_Ymd_def isoformat_time_def less_append_cancel)
  next
    case year
    have "dec4 (dt_year d - 1) < dec4 (dt_year d)"
      using year(3) assms(1) by (intro dec4_less) (auto simp: valid_datetime_def)
    then have "dec4 (dt_year d - 1) @ ''-'' @ dec2 12 @ ''-'' @ dec2 31
               < dec4 (dt_year d) @ ''-'' @ dec2 (dt_month d) @ ''-'' @ dec2 (dt_day d)"
      by (rule less_append_same_length [rotated]) (simp add: length_dec4)
    with year assms(1) show ?thesis
      by (auto simp: valid_datetime_def strftime_Ymd_def isoformat_time_def days_in_month_def)
  qed
qed

lemma minus_days_props:
  assumes "valid_datetime d" and "minus_days n d = Inr d'"
  shows "valid_datetime d' \<and> (n = 0 \<or> strftime_Ymd d' < strftime_Ymd d) \<and>
         isoformat_time d' = isoformat_time d"
  using assms
proof (induction n arbitrary: d)
  case 0
  then show ?case by simp
next
  case (Suc n)
  then obtain d1 where p: "prev_day d = Inr d1" and m: "minus_days n d1 = Inr d'"
    by (auto split: sum.splits)
  from prev_day_props [OF Suc.prems(1) p]
  have v1: "valid_datetime d1" and l1: "strftime_Ymd d1 < strftime_Ymd d"
    and t1: "isoformat_time d1 = isoformat_time d"
    by simp_all
  from Suc.IH [OF v1 m] l1 t1 m show ?case
    by (cases n) auto
qed

lemma minus_days_add:
  "minus_days (a + b) d = (case minus_days a d of Inl e \<Rightarrow> Inl e | Inr d' \<Rightarrow> minus_days b d')"
  by (induction a arbitrary: d) (auto split: sum.splits)

lemma minus_days_isoformat_less:
  assumes "valid_datetime d" and "i < j"
    and "minus_days i d = Inr di" and "minus_days j d = Inr dj"
  shows "isoformat dj @ ''Z'' < isoformat di @ ''Z''"
proof -
  have "minus_days (i + (j - i)) d = Inr dj"
    using assms(2,4) by simp
  then have m: "minus_days (j - i) di = Inr dj"
    using assms(3) by (simp add: minus_days_add)
  have vi: "valid_datetime di"
    using minus_days_props [OF assms(1,3)] by simp
  from minus_days_props [OF vi m] assms(2)
  have l: "strftime_Ymd dj < strftime_Ymd di"
    and t: "isoformat_time dj = isoformat_time di"
    by simp_all
  have "strftime_Ymd dj @ (isoformat_time dj @ ''Z'') < strftime_Ymd di @ (isoformat_time di @ ''Z'')"
    using l by (rule less_append_same_length [rotated]) (simp add: length_strftime_Ymd)
  then show ?thesis
    by (simp add: isoformat_def)
qed


lemma mock_version_timestamp:
  "mock_version repo_id base i = Inr v \<Longrightarrow>
   \<exists>d. minus_days i base = Inr d \<and> v_timestamp v = isoformat d @ ''Z''"
  by (auto simp: mock_version_def split: sum.splits)

lemma mock_versions_from_set:
  "mock_versions_from repo_id base ns = Inr vs \<Longrightarrow> v \<in> set vs \<Longrightarrow>
   \<exists>j\<in>set ns. mock_version repo_id base j = Inr v"
  by (induction ns arbitrary: vs) (auto split: sum.splits)

lemma mock_versions_newest_first:
  assumes "valid_datetime base"
  shows "sorted_wrt (<) ns \<Longrightarrow> mock_versions_from repo_id base ns = Inr vs \<Longrightarrow> newest_first vs"
proof (induction ns arbitrary: vs)
  case Nil
  then show ?case by (simp add: newest_first_def)
next
  case (Cons i ns)
  then obtain v vs' where v: "mock_version repo_id base i = Inr v"
    and r: "mock_versions_from repo_id base ns = Inr vs'" and vs: "vs = v # vs'"
    by (auto split: sum.splits)
  obtain d where d: "minus_days i base = Inr d" "v_timestamp v = isoformat d @ ''Z''"
    using mock_version_timestamp [OF v] by blast
  have "v_timestamp v' \<le> v_timestamp v" if mem: "v' \<in> set vs'" for v'
  proof -
    obtain j where j: "j \<in> set ns" "mock_version repo_id base j = Inr v'"
      using mock_versions_from_set [OF r mem] by blast
    obtain d' where d': "minus_days j base = Inr d'" "v_timestamp v' = isoformat d' @ ''Z''"
      using mock_version_timestamp [OF j(2)] by blast
    have "i < j" using Cons.prems(1) j(1) by simp
    then have "isoformat d' @ ''Z'' < isoformat d @ ''Z''"
      using assms d(1) d'(1) by (intro minus_days_isoformat_less)
    with d(2) d'(2) show ?thesis by simp
  qed
  moreover have "newest_first vs'"
    using Cons.IH Cons.prems(1) r by simp
  ultimately show ?case
    by (simp add: newest_first_def vs)
qed

lemma sorted_sort_reverse: "sorted_wrt (\<lambda>a b. f b \<le> f a) (sort_reverse f xs)"
proof -
  have "sorted (map f (sort_key f (rev xs)))" by (rule sorted_sort_key)
  then have "sorted_wrt (\<lambda>a b. f a \<le> f b) (sort_key f (rev xs))"
    by (simp add: sorted_map)
  then show ?thesis
    by (simp add: sort_reverse_def sorted_wrt_rev)
qed

lemma stable_sort_reverse:
  "filter (\<lambda>x. f x = k) (sort_reverse f xs) = filter (\<lambda>x. f x = k) xs"
proof -
  have "filter (\<lambda>x. f x = k) (sort_key f (rev xs)) = filter (\<lambda>x. f x = k) (rev xs)"
    by (rule sort_key_stable)
  then have "rev (filter (\<lambda>x. f x = k) (sort_key f (rev xs))) = filter (\<lambda>x. f x = k) xs"
    by (simp add: rev_filter)
  then show ?thesis
    by (simp add: sort_reverse_def rev_filter)
qed

lemma list_backup_versions_nonmock:
  assumes "\<not> MOCK_MODE w"
  shows "fst (list_backup_versions w repo_id s) =
         Inr (sort_reverse v_timestamp (versions_as_listed w repo_id s))"
  using assms
  by (auto simp: list_backup_versions_def versions_as_listed_def Let_def sort_reverse_def
      split: option.splits prod.splits sum.splits)

text \<open>
  C6: the sequence returned by \<open>list_backup_versions\<close> is sorted by timestamp, newest
  first, and versions with equal timestamps keep the order in which they were listed
  (for every timestamp, the versions carrying it form the same sequence before and
  after the sort). The clock is taken to give values that a \<open>datetime\<close> can hold.
\<close>

theorem list_backup_versions_newest_first:
  assumes "\<forall>k. valid_datetime (utcnow_at w k)"
    and "fst (list_backup_versions w repo_id s) = Inr vs"
  shows "newest_first vs \<and>
         (\<forall>t. filter (\<lambda>v. v_timestamp v = t) vs =
              filter (\<lambda>v. v_timestamp v = t) (versions_as_listed w repo_id s))"
proof (cases "MOCK_MODE w")
  case True
  have "valid_datetime ((utcnow_at w (clock_reads s))\<lparr>dt_utcoffset := None\<rparr>)"
    using assms(1) by (simp add: valid_datetime_def)
  moreover have "sorted_wrt (<) [0..<10]"
    by (simp add: sorted_wrt_upt)
  moreover have "mock_versions_from repo_id ((utcnow_at w (clock_reads s))\<lparr>dt_utcoffset := None\<rparr>)
                   [0..<10] = Inr vs"
    using assms(2) True
    by (simp add: list_backup_versions_def get_mock_backup_versions_def utcnow_def)
  ultimately have "newest_first vs"
    by (rule mock_versions_newest_first)
  moreover have "versions_as_listed w repo_id s = vs"
    using assms(2) True by (simp add: versions_as_listed_def list_backup_versions_def)
  ultimately show ?thesis by simp
next
  case False
  then have "vs = sort_reverse v_timestamp (versions_as_listed w repo_id s)"
    using assms(2) by (simp add: list_backup_versions_nonmock)
  then show ?thesis
    by (simp add: newest_first_def sorted_sort_reverse stable_sort_reverse)
qed

text \<open>Two backups modified at the same time stay in listing order.\<close>

theorem list_backup_versions_newest_first_witness:
  "fst (list_backup_versions
          (demo_world [demo_blob key_0301, demo_blob key_0302] None env_account answer_409)
          ''acme-ProjectX-svc-a'' no_effects) =
     Inr [\<lparr> v_id = ''acme-ProjectX-svc-a-2025-03-01'', v_timestamp = ''2025-03-02T09:00:00+00:00'',
            v_size_bytes = 1048576, v_retention_expires = Some ''2025-05-31T09:00:00+00:00'',
            v_blob_path = key_0301 \<rparr>,
          \<lparr> v_id = ''acme-ProjectX-svc-a-2025-03-02'', v_timestamp = ''2025-03-02T09:00:00+00:00'',
            v_size_bytes = 1048576, v_retention_expires = Some ''2025-05-31T09:00:00+00:00'',
            v_blob_path = key_0302 \<rparr>] \<and>
   newest_first
     [\<lparr> v_id = ''acme-ProjectX-svc-a-2025-03-01'', v_timestamp = ''2025-03-02T09:00:00+00:00'',
        v_size_bytes = 1048576, v_retention_expires = Some ''2025-05-31T09:00:00+00:00'',
        v_blob_path = key_0301 \<rparr>,
      \<lparr> v_id = ''acme-ProjectX-svc-a-2025-03-02'', v_timestamp = ''2025-03-02T09:00:00+00:00'',
        v_size_bytes = 1048576, v_retention_expires = Some ''2025-05-31T09:00:00+00:00'',
        v_blob_path = key_0302 \<rparr>]"
proof -
  let ?w = "demo_world [demo_blob key_0301, demo_blob key_0302] None env_account answer_409"
  have h1: "\<forall>k. valid_datetime (utcnow_at ?w k)"
    by (simp add: demo_world_def demo_time_def valid_datetime_def days_in_month_def)
  have h2: "fst (list_backup_versions ?w ''acme-ProjectX-svc-a'' no_effects) =
     Inr [\<lparr> v_id = ''acme-ProjectX-svc-a-2025-03-01'', v_timestamp = ''2025-03-02T09:00:00+00:00'',
            v_size_bytes = 1048576, v_retention_expires = Some ''2025-05-31T09:00:00+00:00'',
            v_blob_path = key_0301 \<rparr>,
          \<lparr> v_id = ''acme-ProjectX-svc-a-2025-03-02'', v_timestamp = ''2025-03-02T09:00:00+00:00'',
            v_size_bytes = 1048576, v_retention_expires = Some ''2025-05-31T09:00:00+00:00'',
            v_blob_path = key_0302 \<rparr>]"
    by code_simp
  from list_backup_versions_newest_first [OF h1 h2] h2 show ?thesis
    by simp
qed

subsection \<open>Catalogue builder\<close>

lemma skip_prefix_unset: "storage_prefix w = [] \<Longrightarrow> skip_prefix (environ w) parts = parts"
  by (simp add: skip_prefix_def storage_prefix_def)

lemma parse_key_0301:
  assumes "storage_prefix w = []"
  shows "parse_blob_path (environ w) key_0301 =
         Some \<lparr> p_org = ''acme'', p_project = ''ProjectX'', p_repo = ''svc-a'',
                p_date_str = Some ''2025-03-01'', p_blob_name = key_0301 \<rparr>"
proof -
  have k: "key_parts key_0301 = [''acme'', ''ProjectX'', ''svc-a'', ''2025-03-01-0900.zip'']"
    by code_simp
  have r: "rsplit1 CHR ''/'' ''svc-a/2025-03-01-0900.zip'' = (''svc-a'', ''2025-03-01-0900.zip'')"
    by code_simp
  have e: "extract_date ''2025-03-01-0900.zip'' = Some ''2025-03-01''"
    by code_simp
  show ?thesis
    by (simp add: parse_blob_path_def k skip_prefix_unset [OF assms] r e)
qed

lemma parse_key_0302:
  assumes "storage_prefix w = []"
  shows "parse_blob_path (environ w) key_0302 =
         Some \<lparr> p_org = ''acme'', p_project = ''ProjectX'', p_repo = ''svc-a'',
                p_date_str = Some ''2025-03-02'', p_blob_name = key_0302 \<rparr>"
proof -
  have k: "key_parts key_0302 = [''acme'', ''ProjectX'', ''svc-a'', ''2025-03-02-0900.zip'']"
    by code_simp
  have r: "rsplit1 CHR ''/'' ''svc-a/2025-03-02-0900.zip'' = (''svc-a'', ''2025-03-02-0900.zip'')"
    by code_simp
  have e: "extract_date ''2025-03-02-0900.zip'' = Some ''2025-03-02''"
    by code_simp
  show ?thesis
    by (simp add: parse_blob_path_def k skip_prefix_unset [OF assms] r e)
qed

lemma catalog_step_new:
  assumes "storage_prefix w = []"
  shows "blob_name b = key_0301 \<Longrightarrow> catalog_step (environ w) [] b =
           [(''acme-ProjectX-svc-a'', svc_a_entry 1 (Some ''2025-03-01T00:00:00Z''))]"
    and "blob_name b = key_0302 \<Longrightarrow> catalog_step (environ w) [] b =
           [(''acme-ProjectX-svc-a'', svc_a_entry 1 (Some ''2025-03-02T00:00:00Z''))]"
proof -
  have z: "endswith key_0301 ''.zip''" "endswith key_0302 ''.zip''"
    by code_simp+
  have b: "bump_last_backup ''2025-03-01'' (svc_a_entry 1 None) =
             svc_a_entry 1 (Some ''2025-03-01T00:00:00Z'')"
    "bump_last_backup ''2025-03-02'' (svc_a_entry 1 None) =
             svc_a_entry 1 (Some ''2025-03-02T00:00:00Z'')"
    by code_simp+
  have u: "\<lparr> s_id = ''acme-ProjectX-svc-a'', s_org = ''acme'', s_project = ''ProjectX'',
       s_repo = ''svc-a'', s_backup_count = 1, s_last_backup = None \<rparr> = svc_a_entry 1 None"
    by (simp add: svc_a_entry_def)
  show "blob_name b = key_0301 \<Longrightarrow> catalog_step (environ w) [] b =
           [(''acme-ProjectX-svc-a'', svc_a_entry 1 (Some ''2025-03-01T00:00:00Z''))]"
    by (simp add: catalog_step_def z parse_key_0301 [OF assms] dict_update_def str_truthy_def
        str_of_def u b)
  show "blob_name b = key_0302 \<Longrightarrow> catalog_step (environ w) [] b =
           [(''acme-ProjectX-svc-a'', svc_a_entry 1 (Some ''2025-03-02T00:00:00Z''))]"
    by (simp add: catalog_step_def z parse_key_0302 [OF assms] dict_update_def str_truthy_def
        str_of_def u b)
qed

lemma catalog_step_again:
  assumes "storage_prefix w = []"
  shows "blob_name b = key_0302 \<Longrightarrow>
         catalog_step (environ w)
           [(''acme-ProjectX-svc-a'', svc_a_entry 1 (Some ''2025-03-01T00:00:00Z''))] b =
           [(''acme-ProjectX-svc-a'', svc_a_entry 2 (Some ''2025-03-02T00:00:00Z''))]"
    and "blob_name b = key_0301 \<Longrightarrow>
         catalog_step (environ w)
           [(''acme-ProjectX-svc-a'', svc_a_entry 1 (Some ''2025-03-02T00:00:00Z''))] b =
           [(''acme-ProjectX-svc-a'', svc_a_entry 2 (Some ''2025-03-02T00:00:00Z''))]"
proof -
  have z: "endswith key_0301 ''.zip''" "endswith key_0302 ''.zip''"
    by code_simp+
  have b: "bump_last_backup ''2025-03-02'' (svc_a_entry 2 (Some ''2025-03-01T00:00:00Z'')) =
             svc_a_entry 2 (Some ''2025-03-02T00:00:00Z'')"
    "bump_last_backup ''2025-03-01'' (svc_a_entry 2 (Some ''2025-03-02T00:00:00Z'')) =
             svc_a_entry 2 (Some ''2025-03-02T00:00:00Z'')"
    by code_simp+
  have u: "(svc_a_entry 1 d)\<lparr>s_backup_count := s_backup_count (svc_a_entry 1 d) + 1\<rparr> = svc_a_entry 2 d"
    for d by (simp add: svc_a_entry_def)
  show "blob_name b = key_0302 \<Longrightarrow>
         catalog_step (environ w)
           [(''acme-ProjectX-svc-a'', svc_a_entry 1 (Some ''2025-03-01T00:00:00Z''))] b =
           [(''acme-ProjectX-svc-a'', svc_a_entry 2 (Some ''2025-03-02T00:00:00Z''))]"
    by (simp add: catalog_step_def z parse_key_0302 [OF assms] dict_update_def str_truthy_def
        str_of_def u b)
  show "blob_name b = key_0301 \<Longrightarrow>
         catalog_step (environ w)
           [(''acme-ProjectX-svc-a'', svc_a_entry 1 (Some ''2025-03-02T00:00:00Z''))] b =
           [(''acme-ProjectX-svc-a'', svc_a_entry 2 (Some ''2025-03-02T00:00:00Z''))]"
    by (simp add: catalog_step_def z parse_key_0301 [OF assms] dict_update_def str_truthy_def
        str_of_def u b)
qed

text \<open>
  C9 (scenario A): outside mock mode, with a storage client, no prefix configured and
  a listing that yields exactly the keys
  \<open>acme/ProjectX/svc-a/2025-03-01-0900.zip\<close> and
  \<open>acme/ProjectX/svc-a/2025-03-02-0900.zip\<close>, in either order,
  \<open>list_repositories\<close> returns one summary: id \<open>acme-ProjectX-svc-a\<close>, two backups,
  and the later date \<open>2025-03-02\<close> as last backup, printed as midnight of that day.
\<close>

theorem list_repositories_scenario_A:
  assumes "\<not> MOCK_MODE w" and "get_storage_client w = Some c" and "storage_prefix w = []"
    and "list_blobs w c (container_name w) [] = (bs, None)"
    and "map blob_name bs = [key_0301, key_0302] \<or> map blob_name bs = [key_0302, key_0301]"
  shows "fst (list_repositories w s) =
         [\<lparr> s_id = ''acme-ProjectX-svc-a'', s_org = ''acme'', s_project = ''ProjectX'',
            s_repo = ''svc-a'', s_backup_count = 2,
            s_last_backup = Some ''2025-03-02T00:00:00Z'' \<rparr>]"
proof -
  obtain x y where bs: "bs = [x, y]"
    and xy: "blob_name x = key_0301 \<and> blob_name y = key_0302 \<or>
             blob_name x = key_0302 \<and> blob_name y = key_0301"
    using assms(5) by auto
  have "foldl (catalog_step (environ w)) [] bs =
        [(''acme-ProjectX-svc-a'', svc_a_entry 2 (Some ''2025-03-02T00:00:00Z''))]"
    using xy by (auto simp: bs catalog_step_new [OF assms(3)] catalog_step_again [OF assms(3)])
  then show ?thesis
    using assms(1-4) by (simp add: list_repositories_def svc_a_entry_def)
qed

text \<open>A store holding the two backups.\<close>

theorem list_repositories_scenario_A_witness:
  "fst (list_repositories (demo_world [demo_blob key_0301, demo_blob key_0302] None env_account answer_409)
         no_effects) =
     [\<lparr> s_id = ''acme-ProjectX-svc-a'', s_org = ''acme'', s_project = ''ProjectX'',
        s_repo = ''svc-a'', s_backup_count = 2, s_last_backup = Some ''2025-03-02T00:00:00Z'' \<rparr>]"
proof -
  let ?w = "demo_world [demo_blob key_0301, demo_blob key_0302] None env_account answer_409"
  let ?c = "FromAccountUrl ''https://acct.blob.core.windows.net''"
  have h1: "\<not> MOCK_MODE ?w" by (simp add: demo_world_def)
  have h2: "get_storage_client ?w = Some ?c" by code_simp
  have h3: "storage_prefix ?w = []" by code_simp
  have h4: "list_blobs ?w ?c (container_name ?w) [] = ([demo_blob key_0301, demo_blob key_0302], None)"
    by (simp add: demo_world_def startswith_def)
  have h5: "map blob_name [demo_blob key_0301, demo_blob key_0302] = [key_0301, key_0302] \<or>
            map blob_name [demo_blob key_0301, demo_blob key_0302] = [key_0302, key_0301]"
    by (simp add: demo_blob_def)
  show ?thesis
    by (rule list_repositories_scenario_A [OF h1 h2 h3 h4 h5])
qed

end
